theory Spec2Isabelle
  imports Complex_Main "HOL-Library.Sublist" "HOL-Library.Option_ord"
begin

section \<open>Numbers, errors and data frames\<close>

text \<open>
  A cell of a float64 column is a number or NaN. Numbers are taken as exact rationals
  (the rounding error of binary floating point is not represented); NaN is \<open>None\<close> and
  propagates through arithmetic, as it does in pandas and as NULL does in SQLite.
\<close>

type_synonym num = "rat option"

definition num_mul :: "num \<Rightarrow> num \<Rightarrow> num" where
  "num_mul a b =
     (case a of None \<Rightarrow> None
      | Some x \<Rightarrow> (case b of None \<Rightarrow> None | Some y \<Rightarrow> Some (x * y)))"

text \<open>Rounding to the nearest integer, ties to the even neighbour (numpy's \<open>rint\<close>).\<close>

definition rint :: "rat \<Rightarrow> int" where
  "rint x =
     (let f = \<lfloor>x\<rfloor>; d = x - of_int f
      in if d < 1 / 2 then f
         else if 1 / 2 < d then f + 1
         else if even f then f else f + 1)"

text \<open>\<open>Series.round(decimals)\<close>: scale, round half to even, scale back; NaN stays NaN.\<close>

definition np_round :: "nat \<Rightarrow> num \<Rightarrow> num" where
  "np_round decimals a = map_option (\<lambda>x. of_int (rint (x * 10 ^ decimals)) / 10 ^ decimals) a"

text \<open>
  The exceptions of the run, all of them subclasses of \<open>Exception\<close>, which is what the
  handlers of the source catch.
\<close>

datatype error =
    RequestException
  | KeyError string
  | ValueError
  | FileNotFoundError
  | OSError
  | OperationalError

text \<open>
  The data frames of the pipeline: the text column \<open>Name\<close> and the four market
  capitalisation columns, each of which the frame has or has not (\<open>None\<close>: the frame
  has no column of that name, and reading it raises \<open>KeyError\<close>).
\<close>

record frame =
  Name :: "string list"
  MC_USD_Billion :: "num list option"
  MC_GBP_Billion :: "num list option"
  MC_EUR_Billion :: "num list option"
  MC_INR_Billion :: "num list option"

definition get_column :: "string \<Rightarrow> num list option \<Rightarrow> error + num list" where
  "get_column label col = (case col of None \<Rightarrow> Inl (KeyError label) | Some xs \<Rightarrow> Inr xs)"

section \<open>The world the pipeline runs in\<close>

text \<open>
  What \<open>pd.read_html\<close> returns for a table: the column labels, of one level or of
  several (the outer levels and the innermost one), and column by column the cells,
  each as the text that \<open>astype(str)\<close> gives for it. A table of the page is its class
  attribute, the texts of its header cells in document order, and what \<open>pd.read_html\<close>
  makes of it.
\<close>

datatype columns_index =
    Index "string list"
  | MultiIndex "(string list \<times> string) list"

record raw_frame =
  columns :: columns_index
  cells :: "string list list"

record html_table =
  css_class :: "string list"
  th_text :: "string list"
  read_html :: "error + raw_frame"

datatype fmt_arg =
    Exc error
  | Columns columns_index
  | Currencies "string set"
  | Rate num
  | Path string

type_synonym log_entry = "string \<times> fmt_arg list"

record q1_row =
  Average_MC_EUR :: num
  Max_MC_EUR :: num
  Min_MC_EUR :: num
  Max_to_Min_Ratio :: num

record q2_row =
  Avg_EUR :: num
  Avg_USD :: num
  Avg_GBP :: num
  Avg_INR :: num

type_synonym q3_row = "string \<times> num \<times> num"

datatype query_result = Q1 q1_row | Q2 q2_row | Q3 "q3_row list"

datatype console_item =
    Text string
  | TextExc string error
  | Result query_result
  | LogContents "log_entry list"

text \<open>
  The outside of the program, fixed for a run: the page and its tables in document
  order, the numeric coercion of pandas, the rows (Currency, Rate) of the rate file,
  and the faults of the file system and of the database engine.
\<close>

record env =
  http_get :: "error + html_table list"
  to_numeric :: "string \<Rightarrow> num"
  read_csv :: "error + (string \<times> num) list"
  to_csv_fault :: "error option"
  connect_fault :: "error option"
  to_sql_fault :: "error option"
  open_log_fault :: "error option"

text \<open>
  The mutable state: the DataFrame objects by identity, the log file, the CSV output
  file, the tables of the database file and the console.
\<close>

record world =
  heap :: "nat \<Rightarrow> frame"
  next_ref :: nat
  log_file :: "log_entry list"
  csv_file :: "frame option"
  database :: "string \<Rightarrow> frame option"
  console :: "console_item list"

definition WIKIPEDIA_URL :: string where
  "WIKIPEDIA_URL = ''https://web.archive.org/web/20230908091635/https://en.wikipedia.org/wiki/List_of_largest_banks''"

definition EXCHANGE_RATES_CSV :: string where
  "EXCHANGE_RATES_CSV = ''exchange_rate.csv''"

definition DATABASE_PATH :: string where
  "DATABASE_PATH = ''Banks.db''"

definition CSV_OUTPUT_PATH :: string where
  "CSV_OUTPUT_PATH = ''./Largest_banks_data.csv''"

section \<open>Statements that may raise\<close>

text \<open>
  A statement takes the world and gives a result and the new world; \<open>Inl e\<close> is the
  exception \<open>e\<close> in flight, with the effects made before it was raised.
\<close>

type_synonym 'a prog = "world \<Rightarrow> (error + 'a) \<times> world"

definition returns :: "'a \<Rightarrow> 'a prog" where
  "returns a w = (Inr a, w)"

definition lift :: "error + 'a \<Rightarrow> 'a prog" where
  "lift r w = (r, w)"

definition andthen :: "'a prog \<Rightarrow> ('a \<Rightarrow> 'b prog) \<Rightarrow> 'b prog" where
  "andthen m f w = (case m w of (Inl e, w') \<Rightarrow> (Inl e, w') | (Inr a, w') \<Rightarrow> f a w')"

definition try_except :: "'a prog \<Rightarrow> (error \<Rightarrow> 'a prog) \<Rightarrow> 'a prog" where
  "try_except body handler w =
     (case body w of (Inl e, w') \<Rightarrow> handler e w' | (Inr a, w') \<Rightarrow> (Inr a, w'))"

definition fault :: "error option \<Rightarrow> unit prog" where
  "fault f w = (case f of None \<Rightarrow> (Inr (), w) | Some e \<Rightarrow> (Inl e, w))"

text \<open>
  A log entry is the message with its formatted arguments apart. Writing one does not
  raise: the logging module keeps the errors of its handlers to itself.
\<close>

definition log_progress :: "log_entry \<Rightarrow> unit prog" where
  "log_progress message w = (Inr (), w\<lparr>log_file := log_file w @ [message]\<rparr>)"

definition print :: "console_item \<Rightarrow> unit prog" where
  "print item w = (Inr (), w\<lparr>console := console w @ [item]\<rparr>)"

section \<open>Extraction\<close>

text \<open>Python's \<open>sub in s\<close> on strings: \<open>sub\<close> occurs in \<open>s\<close> as a contiguous run.\<close>

fun py_in :: "string \<Rightarrow> string \<Rightarrow> bool" where
  "py_in sub [] = (sub = [])"
| "py_in sub (c # cs) = (prefix sub (c # cs) \<or> py_in sub cs)"

text \<open>
  The search of lines 46 to 55: the tables in order, and for each its header cells in
  order; the first header cell with text containing \<open>Market cap\<close> stops both loops
  (a tag of BeautifulSoup is always true, so \<open>if target_table\<close> tests for a match).
\<close>

fun scan_headers :: "string list \<Rightarrow> bool" where
  "scan_headers [] = False"
| "scan_headers (header # headers) =
     (if header \<noteq> [] \<and> py_in ''Market cap'' header then True else scan_headers headers)"

fun find_target :: "html_table list \<Rightarrow> html_table option" where
  "find_target [] = None"
| "find_target (table # tables) =
     (if scan_headers (th_text table) then Some table else find_target tables)"

definition find_all_wikitable :: "html_table list \<Rightarrow> html_table list" where
  "find_all_wikitable soup = filter (\<lambda>t. ''wikitable'' \<in> set (css_class t)) soup"

text \<open>\<open>str.strip()\<close>: the white space of Python among the characters below 256.\<close>

definition is_space :: "char \<Rightarrow> bool" where
  "is_space c =
     (c \<in> set [CHR 0x09, CHR 0x0A, CHR 0x0B, CHR 0x0C, CHR 0x0D, CHR 0x1C, CHR 0x1D,
                CHR 0x1E, CHR 0x1F, CHR 0x20, CHR 0x85, CHR 0xA0])"

definition strip :: "string \<Rightarrow> string" where
  "strip s = rev (dropWhile is_space (rev (dropWhile is_space s)))"

definition get_level_values_last :: "columns_index \<Rightarrow> string list" where
  "get_level_values_last ix = (case ix of Index ls \<Rightarrow> ls | MultiIndex ls \<Rightarrow> map snd ls)"

text \<open>
  \<open>df[[k1, k2]]\<close>: for each key in turn every column of that label; a key that labels
  no column raises \<open>KeyError\<close>.
\<close>

fun select_columns :: "string list \<Rightarrow> (string \<times> 'a) list \<Rightarrow> error + (string \<times> 'a) list" where
  "select_columns [] cols = Inr []"
| "select_columns (k # ks) cols =
     (case filter (\<lambda>c. fst c = k) cols of
        [] \<Rightarrow> Inl (KeyError k)
      | c # cs \<Rightarrow>
          (case select_columns ks cols of
             Inl e \<Rightarrow> Inl e
           | Inr rest \<Rightarrow> Inr ((c # cs) @ rest)))"

definition str_replace_comma :: "string \<Rightarrow> string" where
  "str_replace_comma s = filter (\<lambda>c. c \<noteq> CHR '','') s"

text \<open>Lines 71 and 72 on one cell: drop the commas, then coerce; a failure is NaN.\<close>

definition clean_cell :: "(string \<Rightarrow> num) \<Rightarrow> string \<Rightarrow> num" where
  "clean_cell coerce s = coerce (str_replace_comma s)"

text \<open>
  Lines 64 to 72. Assigning two labels to a selection that is not of two columns
  raises \<open>ValueError\<close>.
\<close>

definition clean_frame :: "(string \<Rightarrow> num) \<Rightarrow> raw_frame \<Rightarrow> error + frame" where
  "clean_frame coerce df =
     (let labels = map strip (get_level_values_last (columns df))
      in case select_columns [''Bank name'', ''Market cap (US$ billion)'']
                (zip labels (cells df)) of
           Inl e \<Rightarrow> Inl e
         | Inr sel \<Rightarrow>
             if length sel \<noteq> 2 then Inl ValueError
             else Inr \<lparr>Name = snd (sel ! 0),
                       MC_USD_Billion = Some (map (clean_cell coerce) (snd (sel ! 1))),
                       MC_GBP_Billion = None,
                       MC_EUR_Billion = None,
                       MC_INR_Billion = None\<rparr>)"

definition new_frame :: "frame \<Rightarrow> nat prog" where
  "new_frame df w =
     (Inr (next_ref w), w\<lparr>heap := (heap w)(next_ref w := df), next_ref := Suc (next_ref w)\<rparr>)"

definition extract_body :: "env \<Rightarrow> nat option prog" where
  "extract_body env =
     andthen (log_progress (''Starting data extraction from Wikipedia'', [])) (\<lambda>_.
     andthen (log_progress (''Making HTTP request to Wikipedia'', [])) (\<lambda>_.
     andthen (lift (http_get env)) (\<lambda>soup.
     andthen (log_progress (''Locating market capitalization table'', [])) (\<lambda>_.
     (case find_target (find_all_wikitable soup) of
        Some target_table \<Rightarrow>
          andthen (log_progress (''Target table found - processing data'', [])) (\<lambda>_.
          andthen (lift (read_html target_table)) (\<lambda>df.
          andthen (log_progress (''Available columns: {}'', [Columns (columns df)])) (\<lambda>_.
          andthen (lift (clean_frame (to_numeric env) df)) (\<lambda>df_clean.
          andthen (new_frame df_clean) (\<lambda>r.
          andthen (log_progress (''Data extraction completed successfully'', [])) (\<lambda>_.
          returns (Some r)))))))
      | None \<Rightarrow>
          andthen (log_progress (''Error: Target table not found!'', [])) (\<lambda>_.
          returns None))))))"

text \<open>The function \<open>extract\<close> of the source.\<close>

definition extract_stage :: "env \<Rightarrow> nat option prog" where
  "extract_stage env =
     try_except (extract_body env) (\<lambda>e.
       andthen (log_progress (''Error in data extraction: {}'', [Exc e])) (\<lambda>_.
       returns None))"

section \<open>Transformation\<close>

definition required_currencies :: "string set" where
  "required_currencies = {''EUR'', ''GBP'', ''INR''}"

text \<open>\<open>dict(zip(Currency, Rate))\<close>: a later row overwrites an earlier one of the same key.\<close>

definition dict_zip :: "(string \<times> num) list \<Rightarrow> string \<Rightarrow> num option" where
  "dict_zip rows = map_of (rev rows)"

definition subscript :: "(string \<Rightarrow> num option) \<Rightarrow> string \<Rightarrow> error + num" where
  "subscript d k = (case d k of None \<Rightarrow> Inl (KeyError k) | Some v \<Rightarrow> Inr v)"

text \<open>\<open>(df['MC_USD_Billion'] * exchange_rates[code]).round(2)\<close>\<close>

definition converted :: "frame \<Rightarrow> (string \<Rightarrow> num option) \<Rightarrow> string \<Rightarrow> error + num list" where
  "converted df exchange_rates code =
     (case get_column ''MC_USD_Billion'' (MC_USD_Billion df) of
        Inl e \<Rightarrow> Inl e
      | Inr usd \<Rightarrow>
          (case subscript exchange_rates code of
             Inl e \<Rightarrow> Inl e
           | Inr rate \<Rightarrow> Inr (map (\<lambda>x. np_round 2 (num_mul x rate)) usd)))"

text \<open>
  \<open>df[column] = ...\<close> on the object \<open>r\<close>: the right-hand side is computed from the
  object as it is now, and the object is updated in place.
\<close>

definition assign_converted ::
  "nat \<Rightarrow> (num list \<Rightarrow> frame \<Rightarrow> frame) \<Rightarrow> (string \<Rightarrow> num option) \<Rightarrow> string \<Rightarrow> unit prog" where
  "assign_converted r setitem exchange_rates code w =
     (case converted (heap w r) exchange_rates code of
        Inl e \<Rightarrow> (Inl e, w)
      | Inr col \<Rightarrow> (Inr (), w\<lparr>heap := (heap w)(r := setitem col (heap w r))\<rparr>))"

definition transform_inner :: "env \<Rightarrow> nat \<Rightarrow> nat option prog" where
  "transform_inner env r =
     andthen (log_progress (''Reading exchange rates from {}'', [Path EXCHANGE_RATES_CSV])) (\<lambda>_.
     andthen (lift (read_csv env)) (\<lambda>exchange_rates_df.
     (let available_currencies = set (map fst exchange_rates_df)
      in if \<not> required_currencies \<subseteq> available_currencies then
           andthen (log_progress (''Error: Missing exchange rates for currencies: {}'',
                      [Currencies (required_currencies - available_currencies)])) (\<lambda>_.
           returns None)
         else
           (let exchange_rates = dict_zip exchange_rates_df
            in andthen (lift (subscript exchange_rates ''EUR'')) (\<lambda>eur.
               andthen (lift (subscript exchange_rates ''GBP'')) (\<lambda>gbp.
               andthen (lift (subscript exchange_rates ''INR'')) (\<lambda>inr.
               andthen (log_progress
                          (''Exchange rates loaded successfully: EUR={}, GBP={}, INR={}'',
                           [Rate eur, Rate gbp, Rate inr])) (\<lambda>_.
               andthen (assign_converted r (\<lambda>col df. df\<lparr>MC_GBP_Billion := Some col\<rparr>)
                          exchange_rates ''GBP'') (\<lambda>_.
               andthen (assign_converted r (\<lambda>col df. df\<lparr>MC_EUR_Billion := Some col\<rparr>)
                          exchange_rates ''EUR'') (\<lambda>_.
               andthen (assign_converted r (\<lambda>col df. df\<lparr>MC_INR_Billion := Some col\<rparr>)
                          exchange_rates ''INR'') (\<lambda>_.
               andthen (log_progress (''Data transformation completed successfully'', [])) (\<lambda>_.
               returns (Some r)))))))))))))"

definition transform :: "env \<Rightarrow> nat option \<Rightarrow> nat option prog" where
  "transform env df =
     try_except
       (case df of
          None \<Rightarrow>
            andthen (log_progress (''Error: No dataframe to transform'', [])) (\<lambda>_.
            returns None)
        | Some r \<Rightarrow>
            andthen (log_progress (''Starting data transformation'', [])) (\<lambda>_.
            try_except (transform_inner env r) (\<lambda>e.
              andthen (log_progress (''Error reading exchange rates CSV: {}'', [Exc e])) (\<lambda>_.
              returns None))))
       (\<lambda>e.
          andthen (log_progress (''Error in data transformation: {}'', [Exc e])) (\<lambda>_.
          returns None))"

section \<open>Loading\<close>

definition to_csv :: "env \<Rightarrow> nat \<Rightarrow> unit prog" where
  "to_csv env r w =
     (case to_csv_fault env of
        Some e \<Rightarrow> (Inl e, w)
      | None \<Rightarrow> (Inr (), w\<lparr>csv_file := Some (heap w r)\<rparr>))"

definition load_to_csv :: "env \<Rightarrow> nat option \<Rightarrow> bool prog" where
  "load_to_csv env df =
     try_except
       (case df of
          None \<Rightarrow>
            andthen (log_progress (''Error: No dataframe to save to CSV'', [])) (\<lambda>_.
            returns False)
        | Some r \<Rightarrow>
            andthen (log_progress (''Starting CSV file export to {}'', [Path CSV_OUTPUT_PATH])) (\<lambda>_.
            andthen (to_csv env r) (\<lambda>_.
            andthen (log_progress (''Data successfully exported to {}'', [Path CSV_OUTPUT_PATH])) (\<lambda>_.
            returns True))))
       (\<lambda>e.
          andthen (log_progress (''Error saving to CSV: {}'', [Exc e])) (\<lambda>_.
          returns False))"

text \<open>
  \<open>DataFrame.to_sql\<close>. A table is created with the columns of the frame and no rows,
  and the rows of the frame are inserted into it. On a table that exists, \<open>fail\<close>
  raises, \<open>replace\<close> drops the table first, and \<open>append\<close> inserts into the table as
  it is: a column the table lacks is an error of the engine, a column the frame lacks
  is filled with NULL.
\<close>

datatype if_exists = Fail | Replace | Append

definition create_table :: "frame \<Rightarrow> frame" where
  "create_table df =
     \<lparr>Name = [],
      MC_USD_Billion = map_option (\<lambda>_. []) (MC_USD_Billion df),
      MC_GBP_Billion = map_option (\<lambda>_. []) (MC_GBP_Billion df),
      MC_EUR_Billion = map_option (\<lambda>_. []) (MC_EUR_Billion df),
      MC_INR_Billion = map_option (\<lambda>_. []) (MC_INR_Billion df)\<rparr>"

definition insert_column :: "nat \<Rightarrow> num list option \<Rightarrow> num list option \<Rightarrow> error + num list option" where
  "insert_column n old new =
     (case new of
        None \<Rightarrow> Inr (map_option (\<lambda>xs. xs @ replicate n None) old)
      | Some ys \<Rightarrow> (case old of None \<Rightarrow> Inl OperationalError | Some xs \<Rightarrow> Inr (Some (xs @ ys))))"

definition insert_rows :: "frame \<Rightarrow> frame \<Rightarrow> error + frame" where
  "insert_rows table df =
     (let n = length (Name df)
      in case insert_column n (MC_USD_Billion table) (MC_USD_Billion df) of
           Inl e \<Rightarrow> Inl e
         | Inr usd \<Rightarrow>
        (case insert_column n (MC_GBP_Billion table) (MC_GBP_Billion df) of
           Inl e \<Rightarrow> Inl e
         | Inr gbp \<Rightarrow>
        (case insert_column n (MC_EUR_Billion table) (MC_EUR_Billion df) of
           Inl e \<Rightarrow> Inl e
         | Inr eur \<Rightarrow>
        (case insert_column n (MC_INR_Billion table) (MC_INR_Billion df) of
           Inl e \<Rightarrow> Inl e
         | Inr inr \<Rightarrow>
             Inr \<lparr>Name = Name table @ Name df,
                  MC_USD_Billion = usd,
                  MC_GBP_Billion = gbp,
                  MC_EUR_Billion = eur,
                  MC_INR_Billion = inr\<rparr>))))"

definition to_sql ::
  "frame \<Rightarrow> string \<Rightarrow> if_exists \<Rightarrow> (string \<Rightarrow> frame option) \<Rightarrow> error + (string \<Rightarrow> frame option)" where
  "to_sql df name mode db =
     (case db name of
        None \<Rightarrow>
          (case insert_rows (create_table df) df of
             Inl e \<Rightarrow> Inl e
           | Inr t \<Rightarrow> Inr (db(name := Some t)))
      | Some old \<Rightarrow>
          (case mode of
             Fail \<Rightarrow> Inl ValueError
           | Replace \<Rightarrow>
               (case insert_rows (create_table df) df of
                  Inl e \<Rightarrow> Inl e
                | Inr t \<Rightarrow> Inr ((db(name := None))(name := Some t)))
           | Append \<Rightarrow>
               (case insert_rows old df of
                  Inl e \<Rightarrow> Inl e
                | Inr t \<Rightarrow> Inr (db(name := Some t)))))"

definition df_to_sql :: "env \<Rightarrow> nat \<Rightarrow> string \<Rightarrow> if_exists \<Rightarrow> unit prog" where
  "df_to_sql env r name mode w =
     (case to_sql_fault env of
        Some e \<Rightarrow> (Inl e, w)
      | None \<Rightarrow>
          (case to_sql (heap w r) name mode (database w) of
             Inl e \<Rightarrow> (Inl e, w)
           | Inr db \<Rightarrow> (Inr (), w\<lparr>database := db\<rparr>)))"

definition load_to_db :: "env \<Rightarrow> nat option \<Rightarrow> bool prog" where
  "load_to_db env df =
     try_except
       (case df of
          None \<Rightarrow>
            andthen (log_progress (''Error: No dataframe to load to database'', [])) (\<lambda>_.
            returns False)
        | Some r \<Rightarrow>
            andthen (log_progress (''Starting database loading process'', [])) (\<lambda>_.
            andthen (fault (connect_fault env)) (\<lambda>_.
            andthen (df_to_sql env r ''Largest_banks'' Replace) (\<lambda>_.
            andthen (log_progress (''Data successfully loaded to {}'', [Path DATABASE_PATH])) (\<lambda>_.
            returns True)))))
       (\<lambda>e.
          andthen (log_progress (''Error in database loading: {}'', [Exc e])) (\<lambda>_.
          returns False))"

section \<open>Reporting\<close>

text \<open>
  The functions of SQLite the queries use. An aggregate ranges over the values of the
  column that are not NULL and is NULL when there is none; \<open>ROUND\<close> rounds half away
  from zero; a division by zero is NULL.
\<close>

definition non_null :: "num list \<Rightarrow> rat list" where
  "non_null xs = List.map_filter (\<lambda>x. x) xs"

definition sql_avg :: "num list \<Rightarrow> num" where
  "sql_avg xs =
     (case non_null xs of [] \<Rightarrow> None | y # ys \<Rightarrow> Some (sum_list (y # ys) / of_nat (length (y # ys))))"

definition sql_max :: "num list \<Rightarrow> num" where
  "sql_max xs = (case non_null xs of [] \<Rightarrow> None | y # ys \<Rightarrow> Some (fold max ys y))"

definition sql_min :: "num list \<Rightarrow> num" where
  "sql_min xs = (case non_null xs of [] \<Rightarrow> None | y # ys \<Rightarrow> Some (fold min ys y))"

definition sql_round :: "nat \<Rightarrow> num \<Rightarrow> num" where
  "sql_round digits a =
     map_option
       (\<lambda>x. (if 0 \<le> x then of_int \<lfloor>x * 10 ^ digits + 1 / 2\<rfloor>
             else - of_int \<lfloor>- x * 10 ^ digits + 1 / 2\<rfloor>) / 10 ^ digits) a"

definition sql_div :: "num \<Rightarrow> num \<Rightarrow> num" where
  "sql_div a b =
     (case a of None \<Rightarrow> None
      | Some x \<Rightarrow> (case b of None \<Rightarrow> None | Some y \<Rightarrow> if y = 0 then None else Some (x / y)))"

definition from_table :: "(string \<Rightarrow> frame option) \<Rightarrow> string \<Rightarrow> error + frame" where
  "from_table db name = (case db name of None \<Rightarrow> Inl OperationalError | Some t \<Rightarrow> Inr t)"

definition sql_column :: "num list option \<Rightarrow> error + num list" where
  "sql_column col = (case col of None \<Rightarrow> Inl OperationalError | Some xs \<Rightarrow> Inr xs)"

definition query1 :: "(string \<Rightarrow> frame option) \<Rightarrow> error + q1_row" where
  "query1 db =
     (case from_table db ''Largest_banks'' of
        Inl e \<Rightarrow> Inl e
      | Inr t \<Rightarrow>
          (case sql_column (MC_EUR_Billion t) of
             Inl e \<Rightarrow> Inl e
           | Inr eur \<Rightarrow>
               Inr \<lparr>Average_MC_EUR = sql_round 2 (sql_avg eur),
                    Max_MC_EUR = sql_round 2 (sql_max eur),
                    Min_MC_EUR = sql_round 2 (sql_min eur),
                    Max_to_Min_Ratio = sql_round 2 (sql_div (sql_max eur) (sql_min eur))\<rparr>))"

definition query2 :: "(string \<Rightarrow> frame option) \<Rightarrow> error + q2_row" where
  "query2 db =
     (case from_table db ''Largest_banks'' of
        Inl e \<Rightarrow> Inl e
      | Inr t \<Rightarrow>
          (case sql_column (MC_EUR_Billion t) of Inl e \<Rightarrow> Inl e | Inr eur \<Rightarrow>
          (case sql_column (MC_USD_Billion t) of Inl e \<Rightarrow> Inl e | Inr usd \<Rightarrow>
          (case sql_column (MC_GBP_Billion t) of Inl e \<Rightarrow> Inl e | Inr gbp \<Rightarrow>
          (case sql_column (MC_INR_Billion t) of Inl e \<Rightarrow> Inl e | Inr inr \<Rightarrow>
             Inr \<lparr>Avg_EUR = sql_round 2 (sql_avg eur),
                  Avg_USD = sql_round 2 (sql_avg usd),
                  Avg_GBP = sql_round 2 (sql_avg gbp),
                  Avg_INR = sql_round 2 (sql_avg inr)\<rparr>)))))"

text \<open>
  The third query orders its rows by the EUR value, largest first and NULL last; the
  order among rows of equal value, which SQL leaves open, is fixed here.
\<close>

definition query3 :: "(string \<Rightarrow> frame option) \<Rightarrow> error + q3_row list" where
  "query3 db =
     (case from_table db ''Largest_banks'' of
        Inl e \<Rightarrow> Inl e
      | Inr t \<Rightarrow>
          (case sql_column (MC_EUR_Billion t) of
             Inl e \<Rightarrow> Inl e
           | Inr eur \<Rightarrow>
               (let max_mc = sql_max eur
                in Inr (rev (sort_key (\<lambda>row. fst (snd row))
                     (map (\<lambda>(n, e). (n, e, sql_round 2 (num_mul (sql_div e max_mc) (Some 100))))
                        (zip (Name t) eur)))))))"

definition read_sql_query :: "((string \<Rightarrow> frame option) \<Rightarrow> error + 'a) \<Rightarrow> 'a prog" where
  "read_sql_query q w = (q (database w), w)"

definition run_queries :: "env \<Rightarrow> (string \<times> query_result) list option prog" where
  "run_queries env =
     try_except
       (andthen (log_progress (''Starting database queries'', [])) (\<lambda>_.
        andthen (fault (connect_fault env)) (\<lambda>_.
        andthen (read_sql_query query1) (\<lambda>r1.
        andthen (read_sql_query query2) (\<lambda>r2.
        andthen (read_sql_query query3) (\<lambda>r3.
        andthen (print (Text (CHR 0x0A # ''Market Cap Analysis:''))) (\<lambda>_.
        andthen (print (Result (Q1 r1))) (\<lambda>_.
        andthen (print (Text (CHR 0x0A # ''Average by Currency:''))) (\<lambda>_.
        andthen (print (Result (Q2 r2))) (\<lambda>_.
        andthen (print (Text (CHR 0x0A # ''Bank Size Comparison:''))) (\<lambda>_.
        andthen (print (Result (Q3 r3))) (\<lambda>_.
        andthen (log_progress (''Database queries completed successfully'', [])) (\<lambda>_.
        returns (Some [(''Market Cap Analysis'', Q1 r1),
                       (''Average by Currency'', Q2 r2),
                       (''Bank Size Comparison'', Q3 r3)]))))))))))))))
       (\<lambda>e.
          andthen (log_progress (''Error in database queries: {}'', [Exc e])) (\<lambda>_.
          returns None))"

definition verify_logs :: "env \<Rightarrow> bool prog" where
  "verify_logs env =
     try_except
       (andthen (fault (open_log_fault env)) (\<lambda>_.
        andthen (\<lambda>w. (Inr (log_file w), w)) (\<lambda>log_contents.
        andthen (print (Text (CHR 0x0A # ''Log file contents:''))) (\<lambda>_.
        andthen (print (LogContents log_contents)) (\<lambda>_.
        returns True)))))
       (\<lambda>e.
          andthen (print (TextExc ''Error reading log file: {}'' e)) (\<lambda>_.
          returns False))"

section \<open>The entry point\<close>

definition main :: "env \<Rightarrow> unit prog" where
  "main env =
     andthen (log_progress (''ETL Process Started'', [])) (\<lambda>_.
     andthen (extract_stage env) (\<lambda>df.
     (if df \<noteq> None then
        andthen (transform env df) (\<lambda>df_transformed.
        (if df_transformed \<noteq> None then
           andthen (load_to_db env df_transformed) (\<lambda>db_success.
           andthen (if db_success then andthen (run_queries env) (\<lambda>_. returns ())
                    else returns ()) (\<lambda>_.
           andthen (verify_logs env) (\<lambda>_.
           log_progress (''ETL Process Completed Successfully'', []))))
         else log_progress (''ETL Process Failed at Transformation Stage'', [])))
      else log_progress (''ETL Process Failed at Extraction Stage'', []))))"

section \<open>Sample inputs\<close>

text \<open>
  Modelled from the spec: the numeric coercion is a function of pandas and not of this
  repository; \<open>decimal_numeral\<close> is an instance of it for the sample runs below. It
  reads a plain decimal numeral with an optional sign (\<open>1234.5\<close>, \<open>-12\<close>, \<open>.5\<close>) and
  fails, giving NaN, on every other text.
\<close>

definition digit :: "char \<Rightarrow> nat option" where
  "digit c = (let n = of_char c in if (48::nat) \<le> n \<and> n \<le> 57 then Some (n - 48) else None)"

fun digits_value :: "nat \<Rightarrow> string \<Rightarrow> nat option" where
  "digits_value acc [] = Some acc"
| "digits_value acc (c # cs) =
     (case digit c of None \<Rightarrow> None | Some d \<Rightarrow> digits_value (10 * acc + d) cs)"

definition unsigned_decimal :: "string \<Rightarrow> num" where
  "unsigned_decimal s =
     (let whole = takeWhile (\<lambda>c. c \<noteq> CHR ''.'') s;
          frac = drop 1 (dropWhile (\<lambda>c. c \<noteq> CHR ''.'') s)
      in if whole = [] \<and> frac = [] then None
         else (case digits_value 0 whole of
                 None \<Rightarrow> None
               | Some a \<Rightarrow>
                   (case digits_value 0 frac of
                      None \<Rightarrow> None
                    | Some b \<Rightarrow> Some (of_nat a + of_nat b / 10 ^ length frac))))"

definition decimal_numeral :: "string \<Rightarrow> num" where
  "decimal_numeral s =
     (case s of
        [] \<Rightarrow> None
      | c # cs \<Rightarrow>
          if c = CHR ''-'' then map_option uminus (unsigned_decimal cs)
          else if c = CHR ''+'' then unsigned_decimal cs
          else unsigned_decimal s)"

text \<open>
  A page with two tables of class \<open>wikitable\<close>, the second of which has the market
  capitalisation header and three banks, one of them with a market capitalisation
  that is not a number; the rates of the scenario of the specification; no fault of
  the file system or of the database.
\<close>

definition sample_page :: "html_table list" where
  "sample_page =
     [\<lparr>css_class = [''wikitable'', ''sortable''],
       th_text = [''Rank'', ''Bank name'', ''Total assets''],
       read_html = Inl ValueError\<rparr>,
      \<lparr>css_class = [''wikitable''],
       th_text = [''Rank'', ''Bank name'', ''Market cap (US$ billion)''],
       read_html = Inr \<lparr>columns = Index [''Rank'', ''Bank name '', ''Market cap (US$ billion)''],
                         cells = [[''1'', ''2'', ''3''],
                                  [''Bank A'', ''Bank B'', ''Bank C''],
                                  [''100.0'', ''n/a'', ''1,250.0'']]\<rparr>\<rparr>]"

definition sample_rates :: "(string \<times> num) list" where
  "sample_rates = [(''EUR'', Some (93 / 100)), (''GBP'', Some (8 / 10)), (''INR'', Some (821 / 10))]"

definition sample_env :: env where
  "sample_env =
     \<lparr>http_get = Inr sample_page,
      to_numeric = decimal_numeral,
      read_csv = Inr sample_rates,
      to_csv_fault = None,
      connect_fault = None,
      to_sql_fault = None,
      open_log_fault = None\<rparr>"


definition no_columns :: frame where
  "no_columns =
     \<lparr>Name = [], MC_USD_Billion = None, MC_GBP_Billion = None, MC_EUR_Billion = None,
      MC_INR_Billion = None\<rparr>"

definition bank_a :: frame where
  "bank_a = no_columns\<lparr>Name := [''Bank A''], MC_USD_Billion := Some [Some 100]\<rparr>"

definition bank_a_b :: frame where
  "bank_a_b =
     no_columns\<lparr>Name := [''Bank A'', ''Bank B''], MC_USD_Billion := Some [Some 100, None]\<rparr>"

definition sample_extracted :: frame where
  "sample_extracted =
     no_columns\<lparr>Name := [''Bank A'', ''Bank B'', ''Bank C''],
                MC_USD_Billion := Some [Some 100, None, Some 1250]\<rparr>"

definition sample_transformed :: frame where
  "sample_transformed =
     sample_extracted\<lparr>MC_GBP_Billion := Some [Some 80, None, Some 1000],
                      MC_EUR_Billion := Some [Some 93, None, Some (2325 / 2)],
                      MC_INR_Billion := Some [Some 8210, None, Some 102625]\<rparr>"

definition fresh_world :: world where
  "fresh_world =
     \<lparr>heap = (\<lambda>_. no_columns), next_ref = 0, log_file = [], csv_file = None,
      database = (\<lambda>_. None), console = []\<rparr>"

definition world_with :: "frame \<Rightarrow> world" where
  "world_with df = fresh_world\<lparr>heap := (heap fresh_world)(0 := df), next_ref := 1\<rparr>"

section \<open>Properties of the transformation\<close>

lemmas prog_defs =
  returns_def lift_def andthen_def try_except_def fault_def log_progress_def print_def

lemmas sample_defs =
  sample_env_def sample_rates_def sample_page_def no_columns_def bank_a_def bank_a_b_def
  sample_extracted_def sample_transformed_def fresh_world_def world_with_def

lemma dict_zip_Some: "k \<in> set (map fst rows) \<Longrightarrow> \<exists>v. dict_zip rows k = Some v"
  by (metis dict_zip_def map_of_eq_None_iff not_None_eq set_map set_rev)

lemma dict_zip_dom: "dict_zip rows k = Some v \<Longrightarrow> k \<in> set (map fst rows)"
  by (metis dict_zip_def map_of_eq_None_iff option.distinct(1) set_map set_rev)

lemma transform_unreadable:
  assumes "read_csv env = Inl e"
  shows "transform env (Some r) w =
     (Inr None, w\<lparr>log_file := log_file w @
        [(''Starting data transformation'', []),
         (''Reading exchange rates from {}'', [Path EXCHANGE_RATES_CSV]),
         (''Error reading exchange rates CSV: {}'', [Exc e])]\<rparr>)"
  using assms by (simp add: transform_def transform_inner_def prog_defs Let_def)

lemma transform_missing:
  assumes "read_csv env = Inr rows" and "\<not> required_currencies \<subseteq> set (map fst rows)"
  shows "transform env (Some r) w =
     (Inr None, w\<lparr>log_file := log_file w @
        [(''Starting data transformation'', []),
         (''Reading exchange rates from {}'', [Path EXCHANGE_RATES_CSV]),
         (''Error: Missing exchange rates for currencies: {}'',
            [Currencies (required_currencies - set (map fst rows))])]\<rparr>)"
  using assms by (simp add: transform_def transform_inner_def prog_defs Let_def)

lemma transform_no_usd:
  assumes "read_csv env = Inr rows"
    and "dict_zip rows ''EUR'' = Some eur"
    and "dict_zip rows ''GBP'' = Some gbp"
    and "dict_zip rows ''INR'' = Some inr"
    and "MC_USD_Billion (heap w r) = None"
  shows "transform env (Some r) w =
     (Inr None, w\<lparr>log_file := log_file w @
        [(''Starting data transformation'', []),
         (''Reading exchange rates from {}'', [Path EXCHANGE_RATES_CSV]),
         (''Exchange rates loaded successfully: EUR={}, GBP={}, INR={}'',
            [Rate eur, Rate gbp, Rate inr]),
         (''Error reading exchange rates CSV: {}'', [Exc (KeyError ''MC_USD_Billion'')])]\<rparr>)"
proof -
  have "required_currencies \<subseteq> set (map fst rows)"
    using assms(2-4) dict_zip_dom unfolding required_currencies_def by blast
  then show ?thesis
    using assms
    by (simp add: transform_def transform_inner_def prog_defs subscript_def
        assign_converted_def converted_def get_column_def Let_def)
qed

lemma transform_ok:
  assumes "read_csv env = Inr rows"
    and "dict_zip rows ''EUR'' = Some eur"
    and "dict_zip rows ''GBP'' = Some gbp"
    and "dict_zip rows ''INR'' = Some inr"
    and "MC_USD_Billion (heap w r) = Some usd"
  shows "transform env (Some r) w =
     (Inr (Some r),
      w\<lparr>heap := (heap w)(r := (heap w r)
            \<lparr>MC_GBP_Billion := Some (map (\<lambda>x. np_round 2 (num_mul x gbp)) usd),
             MC_EUR_Billion := Some (map (\<lambda>x. np_round 2 (num_mul x eur)) usd),
             MC_INR_Billion := Some (map (\<lambda>x. np_round 2 (num_mul x inr)) usd)\<rparr>),
        log_file := log_file w @
        [(''Starting data transformation'', []),
         (''Reading exchange rates from {}'', [Path EXCHANGE_RATES_CSV]),
         (''Exchange rates loaded successfully: EUR={}, GBP={}, INR={}'',
            [Rate eur, Rate gbp, Rate inr]),
         (''Data transformation completed successfully'', [])]\<rparr>)"
proof -
  have "required_currencies \<subseteq> set (map fst rows)"
    using assms(2-4) dict_zip_dom unfolding required_currencies_def by blast
  then show ?thesis
    using assms
    by (simp add: transform_def transform_inner_def prog_defs subscript_def
        assign_converted_def converted_def get_column_def Let_def)
qed

lemma complete_rates:
  assumes "required_currencies \<subseteq> set (map fst rows)"
  obtains eur gbp inr where "dict_zip rows ''EUR'' = Some eur"
    and "dict_zip rows ''GBP'' = Some gbp" and "dict_zip rows ''INR'' = Some inr"
proof -
  have "''EUR'' \<in> set (map fst rows)" "''GBP'' \<in> set (map fst rows)"
    "''INR'' \<in> set (map fst rows)"
    using assms unfolding required_currencies_def by auto
  then show ?thesis using dict_zip_Some that by meson
qed

text \<open>
  C4: for an input Dataset that is not absent, when the rate file is read but lacks
  one of the codes EUR, GBP and INR, \<open>transform\<close> returns absent and nothing else: no
  Dataset is touched (no row is converted), no file is written, and the one effect
  is the log, whose last entry names the missing codes.
\<close>

theorem transform_missing_currency_absent:
  assumes "read_csv env = Inr rows"
    and "\<not> required_currencies \<subseteq> set (map fst rows)"
  shows "fst (transform env (Some r) w) = Inr None
    \<and> heap (snd (transform env (Some r) w)) = heap w
    \<and> csv_file (snd (transform env (Some r) w)) = csv_file w
    \<and> database (snd (transform env (Some r) w)) = database w
    \<and> last (log_file (snd (transform env (Some r) w))) =
        (''Error: Missing exchange rates for currencies: {}'',
         [Currencies (required_currencies - set (map fst rows))])"
  using assms by (simp add: transform_missing)

theorem transform_missing_currency_absent_witness:
  "read_csv (sample_env\<lparr>read_csv := Inr [(''EUR'', Some (93 / 100)), (''GBP'', Some (8 / 10))]\<rparr>)
      = Inr [(''EUR'', Some (93 / 100)), (''GBP'', Some (8 / 10))]
   \<and> \<not> required_currencies \<subseteq> set (map fst [(''EUR'', Some (93 / 100)), (''GBP'', Some (8 / 10 :: rat))])
   \<and> fst (transform (sample_env\<lparr>read_csv := Inr [(''EUR'', Some (93 / 100)), (''GBP'', Some (8 / 10))]\<rparr>)
        (Some 0) (world_with bank_a)) = Inr None
   \<and> heap (snd (transform (sample_env\<lparr>read_csv := Inr [(''EUR'', Some (93 / 100)), (''GBP'', Some (8 / 10))]\<rparr>)
        (Some 0) (world_with bank_a))) 0 = bank_a"
proof -
  have h: "\<not> required_currencies \<subseteq> set (map fst [(''EUR'', Some (93 / 100)), (''GBP'', Some (8 / 10 :: rat))])"
    by (simp add: required_currencies_def)
  have r: "read_csv (sample_env\<lparr>read_csv := Inr [(''EUR'', Some (93 / 100)), (''GBP'', Some (8 / 10))]\<rparr>)
      = Inr [(''EUR'', Some (93 / 100)), (''GBP'', Some (8 / 10))]"
    by simp
  show ?thesis
    using transform_missing_currency_absent [OF r h, of 0 "world_with bank_a"] h
    by (simp add: world_with_def fresh_world_def)
qed

lemma sample_rates_lookup:
  "dict_zip sample_rates ''EUR'' = Some (Some (93 / 100))"
  "dict_zip sample_rates ''GBP'' = Some (Some (8 / 10))"
  "dict_zip sample_rates ''INR'' = Some (Some (821 / 10))"
  by (simp_all add: dict_zip_def sample_rates_def)



text \<open>
  C2, as the specification states it: \<open>transform\<close> leaves the Dataset it receives as
  it was. It does not: the object passed in has three more columns after the call.
\<close>

theorem transform_in_place_counterexample:
  "heap (snd (transform sample_env (Some 0) (world_with bank_a))) 0 \<noteq> heap (world_with bank_a) 0"
proof -
  have a: "read_csv sample_env = Inr sample_rates" by (simp add: sample_env_def)
  have c: "MC_USD_Billion (heap (world_with bank_a) 0) = Some [Some 100]"
    by (simp add: sample_defs)
  have d: "dict_zip sample_rates ''EUR'' = Some (Some (93 / 100))"
    "dict_zip sample_rates ''GBP'' = Some (Some (8 / 10))"
    "dict_zip sample_rates ''INR'' = Some (Some (821 / 10))"
    by (simp_all add: dict_zip_def sample_rates_def)
  have "MC_EUR_Billion (heap (snd (transform sample_env (Some 0) (world_with bank_a))) 0) \<noteq> None"
    by (simp add: transform_ok [OF a d c])
  moreover have "MC_EUR_Billion (heap (world_with bank_a) 0) = None"
    by (simp add: sample_defs)
  ultimately show ?thesis by metis
qed

text \<open>
  C2, amended: \<open>transform\<close> updates the Dataset it receives in place. It never
  raises; when it succeeds it returns the very object it was given, with the columns
  \<open>MC_GBP_Billion\<close>, \<open>MC_EUR_Billion\<close> and \<open>MC_INR_Billion\<close> set; the columns \<open>Name\<close>
  and \<open>MC_USD_Billion\<close> of that object and every other object are as before; and
  when it returns absent no object has changed at all.
\<close>

theorem transform_updates_in_place:
  "\<exists>res w'. transform env (Some r) w = (Inr res, w')
     \<and> (\<forall>r'. r' \<noteq> r \<longrightarrow> heap w' r' = heap w r')
     \<and> Name (heap w' r) = Name (heap w r)
     \<and> MC_USD_Billion (heap w' r) = MC_USD_Billion (heap w r)
     \<and> (res = None \<and> heap w' = heap w
        \<or> res = Some r \<and> MC_GBP_Billion (heap w' r) \<noteq> None
            \<and> MC_EUR_Billion (heap w' r) \<noteq> None \<and> MC_INR_Billion (heap w' r) \<noteq> None)"
proof (cases "read_csv env")
  case (Inl e)
  show ?thesis by (simp add: transform_unreadable [OF Inl])
next
  case (Inr rows)
  show ?thesis
  proof (cases "required_currencies \<subseteq> set (map fst rows)")
    case False
    show ?thesis by (simp add: transform_missing [OF Inr False])
  next
    case True
    obtain eur gbp inr where rates: "dict_zip rows ''EUR'' = Some eur"
      "dict_zip rows ''GBP'' = Some gbp" "dict_zip rows ''INR'' = Some inr"
      using complete_rates [OF True] by blast
    show ?thesis
    proof (cases "MC_USD_Billion (heap w r)")
      case None
      show ?thesis by (simp add: transform_no_usd [OF Inr rates None])
    next
      case (Some usd)
      show ?thesis by (simp add: transform_ok [OF Inr rates Some])
    qed
  qed
qed

theorem transform_updates_in_place_witness:
  "fst (transform sample_env (Some 0) (world_with bank_a)) = Inr (Some 0)
   \<and> Name (heap (snd (transform sample_env (Some 0) (world_with bank_a))) 0) = [''Bank A'']
   \<and> MC_USD_Billion (heap (snd (transform sample_env (Some 0) (world_with bank_a))) 0)
       = Some [Some 100]
   \<and> heap (snd (transform sample_env (Some 0) (world_with bank_a))) 1 = no_columns"
proof -
  have a: "read_csv sample_env = Inr sample_rates" by (simp add: sample_env_def)
  have c: "MC_USD_Billion (heap (world_with bank_a) 0) = Some [Some 100]"
    by (simp add: sample_defs)
  have ok: "fst (transform sample_env (Some 0) (world_with bank_a)) = Inr (Some 0)"
    by (simp add: transform_ok [OF a sample_rates_lookup c])
  from transform_updates_in_place [of sample_env 0 "world_with bank_a"]
  obtain res w' where t: "transform sample_env (Some 0) (world_with bank_a) = (Inr res, w')"
    and other: "\<forall>r'. r' \<noteq> 0 \<longrightarrow> heap w' r' = heap (world_with bank_a) r'"
    and same: "Name (heap w' 0) = Name (heap (world_with bank_a) 0)"
      "MC_USD_Billion (heap w' 0) = MC_USD_Billion (heap (world_with bank_a) 0)"
    by blast
  from other have "heap w' 1 = heap (world_with bank_a) 1" by simp
  with t ok same show ?thesis by (simp add: sample_defs)
qed

text \<open>
  C10: for every Dataset and every rate table with the three codes, \<open>transform\<close>
  succeeds whatever values are missing, keeps every row (the \<open>Name\<close> column and the
  length of every column are as before), and in each row whose \<open>MC_USD_Billion\<close> is
  missing the three converted fields are missing too.
\<close>

theorem transform_keeps_rows_of_missing_value:
  assumes "read_csv env = Inr rows"
    and "required_currencies \<subseteq> set (map fst rows)"
    and "MC_USD_Billion (heap w r) = Some usd"
  shows "\<exists>w' cg ce ci.
      transform env (Some r) w = (Inr (Some r), w')
    \<and> Name (heap w' r) = Name (heap w r)
    \<and> MC_USD_Billion (heap w' r) = Some usd
    \<and> MC_GBP_Billion (heap w' r) = Some cg
    \<and> MC_EUR_Billion (heap w' r) = Some ce
    \<and> MC_INR_Billion (heap w' r) = Some ci
    \<and> length cg = length usd \<and> length ce = length usd \<and> length ci = length usd
    \<and> (\<forall>i < length usd. usd ! i = None \<longrightarrow> cg ! i = None \<and> ce ! i = None \<and> ci ! i = None)"
proof -
  obtain eur gbp inr where rates: "dict_zip rows ''EUR'' = Some eur"
    "dict_zip rows ''GBP'' = Some gbp" "dict_zip rows ''INR'' = Some inr"
    using complete_rates [OF assms(2)] by blast
  show ?thesis
    using assms(3)
    by (simp add: transform_ok [OF assms(1) rates assms(3)] num_mul_def np_round_def)
qed

theorem transform_keeps_rows_of_missing_value_witness:
  "read_csv sample_env = Inr sample_rates
   \<and> required_currencies \<subseteq> set (map fst sample_rates)
   \<and> MC_USD_Billion (heap (world_with bank_a_b) 0) = Some [Some 100, None]
   \<and> fst (transform sample_env (Some 0) (world_with bank_a_b)) = Inr (Some 0)
   \<and> Name (heap (snd (transform sample_env (Some 0) (world_with bank_a_b))) 0)
       = [''Bank A'', ''Bank B'']
   \<and> (\<exists>x. MC_GBP_Billion (heap (snd (transform sample_env (Some 0) (world_with bank_a_b))) 0)
       = Some [x, None])
   \<and> (\<exists>x. MC_EUR_Billion (heap (snd (transform sample_env (Some 0) (world_with bank_a_b))) 0)
       = Some [x, None])
   \<and> (\<exists>x. MC_INR_Billion (heap (snd (transform sample_env (Some 0) (world_with bank_a_b))) 0)
       = Some [x, None])"
proof -
  have a: "read_csv sample_env = Inr sample_rates" by (simp add: sample_env_def)
  have b: "required_currencies \<subseteq> set (map fst sample_rates)"
    by (simp add: required_currencies_def sample_rates_def)
  have c: "MC_USD_Billion (heap (world_with bank_a_b) 0) = Some [Some 100, None]"
    by (simp add: sample_defs)
  have n: "Name (heap (world_with bank_a_b) 0) = [''Bank A'', ''Bank B'']"
    by (simp add: sample_defs)
  from transform_keeps_rows_of_missing_value [OF a b c]
  obtain w' cg ce ci where t: "transform sample_env (Some 0) (world_with bank_a_b) = (Inr (Some 0), w')"
    and nm: "Name (heap w' 0) = Name (heap (world_with bank_a_b) 0)"
    and cols: "MC_GBP_Billion (heap w' 0) = Some cg" "MC_EUR_Billion (heap w' 0) = Some ce"
      "MC_INR_Billion (heap w' 0) = Some ci"
    and len: "length cg = 2" "length ce = 2" "length ci = 2"
    and row: "cg ! 1 = None" "ce ! 1 = None" "ci ! 1 = None"
    by auto
  have "\<exists>x. cg = [x, None]" "\<exists>x. ce = [x, None]" "\<exists>x. ci = [x, None]"
    using len row by (auto simp: length_Suc_conv numeral_2_eq_2)
  with a b c n t nm cols show ?thesis by simp
qed

section \<open>Properties of the stages\<close>













lemma extract_found:
  assumes "http_get env = Inr soup" and "find_target (find_all_wikitable soup) = Some t"
    and "read_html t = Inr df" and "clean_frame (to_numeric env) df = Inr fr"
  shows "extract_stage env w =
    (Inr (Some (next_ref w)),
     w\<lparr>heap := (heap w)(next_ref w := fr), next_ref := Suc (next_ref w),
       log_file := log_file w @
       [(''Starting data extraction from Wikipedia'', []),
        (''Making HTTP request to Wikipedia'', []),
        (''Locating market capitalization table'', []),
        (''Target table found - processing data'', []),
        (''Available columns: {}'', [Columns (columns df)]),
        (''Data extraction completed successfully'', [])]\<rparr>)"
  using assms by (simp add: extract_stage_def extract_body_def prog_defs new_frame_def)

lemma sample_target:
  "find_target (find_all_wikitable sample_page) = Some (sample_page ! 1)"
  by (simp add: sample_page_def find_all_wikitable_def)

lemma sample_clean:
  "clean_frame decimal_numeral
     \<lparr>columns = Index [''Rank'', ''Bank name '', ''Market cap (US$ billion)''],
      cells = [[''1'', ''2'', ''3''], [''Bank A'', ''Bank B'', ''Bank C''],
               [''100.0'', ''n/a'', ''1,250.0'']]\<rparr> = Inr sample_extracted"
  by (simp add: clean_frame_def get_level_values_last_def strip_def is_space_def
      clean_cell_def str_replace_comma_def decimal_numeral_def unsigned_decimal_def digit_def
      Let_def sample_extracted_def no_columns_def)



section \<open>Properties of the extraction\<close>







lemma sample_read_html:
  "read_html (sample_page ! 1) =
     Inr \<lparr>columns = Index [''Rank'', ''Bank name '', ''Market cap (US$ billion)''],
          cells = [[''1'', ''2'', ''3''], [''Bank A'', ''Bank B'', ''Bank C''],
                   [''100.0'', ''n/a'', ''1,250.0'']]\<rparr>"
  by (simp add: sample_page_def)



text \<open>
  C6: the clean-up of a market capitalisation cell removes the commas and then
  coerces, so \<open>1,234.5\<close> gives 1234.5; and when the table is found and has the two
  columns, \<open>extract\<close> succeeds with one value per cell, each the coercion of its own
  cell without commas: a cell that fails coercion is the missing value in its row and
  changes no other row.
\<close>

theorem market_cap_cleanup:
  "clean_cell coerce s = coerce (filter (\<lambda>c. c \<noteq> CHR '','') s)
   \<and> str_replace_comma ''1,234.5'' = ''1234.5''
   \<and> clean_cell decimal_numeral ''1,234.5'' = Some (2469 / 2)
   \<and> (\<forall>soup t df l1 names l2 caps.
         http_get env = Inr soup \<and> find_target (find_all_wikitable soup) = Some t
       \<and> read_html t = Inr df
       \<and> select_columns [''Bank name'', ''Market cap (US$ billion)'']
            (zip (map strip (get_level_values_last (columns df))) (cells df))
           = Inr [(l1, names), (l2, caps)]
       \<longrightarrow> (\<exists>w' col. extract_stage env w = (Inr (Some (next_ref w)), w')
              \<and> Name (heap w' (next_ref w)) = names
              \<and> MC_USD_Billion (heap w' (next_ref w)) = Some col
              \<and> length col = length caps
              \<and> (\<forall>i < length caps. col ! i = to_numeric env (str_replace_comma (caps ! i)))))"
proof -
  have a: "clean_cell coerce s = coerce (filter (\<lambda>c. c \<noteq> CHR '','') s)"
    by (simp add: clean_cell_def str_replace_comma_def)
  have b: "str_replace_comma ''1,234.5'' = ''1234.5''"
    by (simp add: str_replace_comma_def)
  have c: "clean_cell decimal_numeral ''1,234.5'' = Some (2469 / 2)"
    by (simp add: clean_cell_def str_replace_comma_def decimal_numeral_def unsigned_decimal_def
        digit_def Let_def)
  have d: "\<exists>w' col. extract_stage env w = (Inr (Some (next_ref w)), w')
              \<and> Name (heap w' (next_ref w)) = names
              \<and> MC_USD_Billion (heap w' (next_ref w)) = Some col
              \<and> length col = length caps
              \<and> (\<forall>i < length caps. col ! i = to_numeric env (str_replace_comma (caps ! i)))"
    if "http_get env = Inr soup" and "find_target (find_all_wikitable soup) = Some t"
      and "read_html t = Inr df"
      and "select_columns [''Bank name'', ''Market cap (US$ billion)'']
            (zip (map strip (get_level_values_last (columns df))) (cells df))
           = Inr [(l1, names), (l2, caps)]"
    for soup t df l1 names l2 caps
  proof -
    have "clean_frame (to_numeric env) df =
       Inr \<lparr>Name = names, MC_USD_Billion = Some (map (clean_cell (to_numeric env)) caps),
            MC_GBP_Billion = None, MC_EUR_Billion = None, MC_INR_Billion = None\<rparr>"
      using that(4) by (simp add: clean_frame_def)
    from extract_found [OF that(1-3) this, of w] show ?thesis
      by (simp add: clean_cell_def)
  qed
  from a b c d show ?thesis by blast
qed

theorem market_cap_cleanup_witness:
  "http_get sample_env = Inr sample_page
   \<and> find_target (find_all_wikitable sample_page) = Some (sample_page ! 1)
   \<and> fst (extract_stage sample_env fresh_world) = Inr (Some 0)
   \<and> Name (heap (snd (extract_stage sample_env fresh_world)) 0) = [''Bank A'', ''Bank B'', ''Bank C'']
   \<and> MC_USD_Billion (heap (snd (extract_stage sample_env fresh_world)) 0)
       = Some [Some 100, None, Some 1250]"
proof -
  have h: "http_get sample_env = Inr sample_page" by (simp add: sample_env_def)
  have n: "to_numeric sample_env = decimal_numeral" by (simp add: sample_env_def)
  have z: "next_ref fresh_world = 0" by (simp add: fresh_world_def)
  have sel: "select_columns [''Bank name'', ''Market cap (US$ billion)'']
       (zip (map strip (get_level_values_last
         (columns \<lparr>columns = Index [''Rank'', ''Bank name '', ''Market cap (US$ billion)''],
          cells = [[''1'', ''2'', ''3''], [''Bank A'', ''Bank B'', ''Bank C''],
                   [''100.0'', ''n/a'', ''1,250.0'']]\<rparr>)))
          (cells \<lparr>columns = Index [''Rank'', ''Bank name '', ''Market cap (US$ billion)''],
          cells = [[''1'', ''2'', ''3''], [''Bank A'', ''Bank B'', ''Bank C''],
                   [''100.0'', ''n/a'', ''1,250.0'']]\<rparr>))
      = Inr [(''Bank name'', [''Bank A'', ''Bank B'', ''Bank C'']),
             (''Market cap (US$ billion)'', [''100.0'', ''n/a'', ''1,250.0''])]"
    by (simp add: get_level_values_last_def strip_def is_space_def)
  have num: "decimal_numeral (str_replace_comma ''100.0'') = Some 100"
    "decimal_numeral (str_replace_comma ''n/a'') = None"
    "decimal_numeral (str_replace_comma ''1,250.0'') = Some 1250"
    by (simp_all add: str_replace_comma_def decimal_numeral_def unsigned_decimal_def
        digit_def Let_def)
  have "http_get sample_env = Inr sample_page
      \<and> find_target (find_all_wikitable sample_page) = Some (sample_page ! 1)
      \<and> read_html (sample_page ! 1) =
          Inr \<lparr>columns = Index [''Rank'', ''Bank name '', ''Market cap (US$ billion)''],
               cells = [[''1'', ''2'', ''3''], [''Bank A'', ''Bank B'', ''Bank C''],
                        [''100.0'', ''n/a'', ''1,250.0'']]\<rparr>
      \<and> select_columns [''Bank name'', ''Market cap (US$ billion)'']
       (zip (map strip (get_level_values_last
         (columns \<lparr>columns = Index [''Rank'', ''Bank name '', ''Market cap (US$ billion)''],
          cells = [[''1'', ''2'', ''3''], [''Bank A'', ''Bank B'', ''Bank C''],
                   [''100.0'', ''n/a'', ''1,250.0'']]\<rparr>)))
          (cells \<lparr>columns = Index [''Rank'', ''Bank name '', ''Market cap (US$ billion)''],
          cells = [[''1'', ''2'', ''3''], [''Bank A'', ''Bank B'', ''Bank C''],
                   [''100.0'', ''n/a'', ''1,250.0'']]\<rparr>))
      = Inr [(''Bank name'', [''Bank A'', ''Bank B'', ''Bank C'']),
             (''Market cap (US$ billion)'', [''100.0'', ''n/a'', ''1,250.0''])]"
    using h sample_target sample_read_html sel by simp
  from market_cap_cleanup [where env = sample_env and w = fresh_world,
      THEN conjunct2, THEN conjunct2, THEN conjunct2, rule_format, OF this]
  obtain w' col where e: "extract_stage sample_env fresh_world = (Inr (Some (next_ref fresh_world)), w')"
    and nm: "Name (heap w' (next_ref fresh_world)) = [''Bank A'', ''Bank B'', ''Bank C'']"
    and c: "MC_USD_Billion (heap w' (next_ref fresh_world)) = Some col"
    and len: "length col = length [''100.0'', ''n/a'', ''1,250.0'']"
    and cell: "\<forall>i < length [''100.0'', ''n/a'', ''1,250.0''].
        col ! i = to_numeric sample_env (str_replace_comma ([''100.0'', ''n/a'', ''1,250.0''] ! i))"
    by blast
  from cell have "col ! 0 = Some 100" "col ! 1 = None" "col ! 2 = Some 1250"
    using n num by (simp_all del: One_nat_def)
  with len have "col = [Some 100, None, Some 1250]"
    by (auto simp: length_Suc_conv numeral_3_eq_3)
  with e nm c z h sample_target show ?thesis by simp
qed

section \<open>Properties of the loading\<close>

lemma insert_column_created: "insert_column n (map_option (\<lambda>_. []) c) c = Inr c"
  by (cases c) (simp_all add: insert_column_def)

lemma insert_into_created: "insert_rows (create_table df) df = Inr df"
  by (simp add: insert_rows_def create_table_def insert_column_created Let_def)

lemma to_sql_replace:
  "to_sql df name Replace db = Inr (db(name := Some df))"
  by (simp add: to_sql_def insert_into_created split: option.splits)

lemma load_to_db_ok:
  assumes "connect_fault env = None" and "to_sql_fault env = None"
  shows "load_to_db env (Some r) w =
    (Inr True,
     w\<lparr>database := (database w)(''Largest_banks'' := Some (heap w r)),
       log_file := log_file w @
         [(''Starting database loading process'', []),
          (''Data successfully loaded to {}'', [Path DATABASE_PATH])]\<rparr>)"
  using assms by (simp add: load_to_db_def df_to_sql_def prog_defs to_sql_replace)

lemma load_to_db_fault:
  assumes "connect_fault env \<noteq> None \<or> to_sql_fault env \<noteq> None"
  shows "\<exists>e. load_to_db env (Some r) w =
    (Inr False,
     w\<lparr>log_file := log_file w @
         [(''Starting database loading process'', []),
          (''Error in database loading: {}'', [Exc e])]\<rparr>)"
  using assms by (auto simp: load_to_db_def df_to_sql_def prog_defs split: option.splits)

lemma to_sql_append_twice:
  "to_sql df name Append ((\<lambda>_. None)(name := Some df)) =
     Inr ((\<lambda>_. None)(name := Some \<lparr>Name = Name df @ Name df,
        MC_USD_Billion = map_option (\<lambda>xs. xs @ xs) (MC_USD_Billion df),
        MC_GBP_Billion = map_option (\<lambda>xs. xs @ xs) (MC_GBP_Billion df),
        MC_EUR_Billion = map_option (\<lambda>xs. xs @ xs) (MC_EUR_Billion df),
        MC_INR_Billion = map_option (\<lambda>xs. xs @ xs) (MC_INR_Billion df)\<rparr>))"
  by (cases "MC_USD_Billion df"; cases "MC_GBP_Billion df"; cases "MC_EUR_Billion df";
      cases "MC_INR_Billion df")
    (simp_all add: to_sql_def insert_rows_def insert_column_def Let_def)

text \<open>
  C8: loading a Dataset into the database twice in succession ends as loading it
  once does. Both loads succeed or both fail (the outside is the same); when they
  succeed the table \<open>Largest_banks\<close> is the Dataset itself, one copy of its rows,
  whatever the table held before, and no other table has changed; when they fail the
  database is as it was.
\<close>

theorem load_to_db_idempotent:
  "\<exists>b w1 w2. load_to_db env (Some r) w = (Inr b, w1)
     \<and> load_to_db env (Some r) w1 = (Inr b, w2)
     \<and> database w2 = database w1
     \<and> heap w2 = heap w
     \<and> b = (connect_fault env = None \<and> to_sql_fault env = None)
     \<and> (b \<longrightarrow> database w2 ''Largest_banks'' = Some (heap w r)
            \<and> (\<forall>n. n \<noteq> ''Largest_banks'' \<longrightarrow> database w2 n = database w n))
     \<and> (\<not> b \<longrightarrow> database w2 = database w)"
proof (cases "connect_fault env = None \<and> to_sql_fault env = None")
  case True
  then show ?thesis by (auto simp: load_to_db_ok)
next
  case False
  then have f: "connect_fault env \<noteq> None \<or> to_sql_fault env \<noteq> None" by simp
  obtain e1 where 1: "load_to_db env (Some r) w =
    (Inr False, w\<lparr>log_file := log_file w @
         [(''Starting database loading process'', []),
          (''Error in database loading: {}'', [Exc e1])]\<rparr>)"
    using load_to_db_fault [OF f] by blast
  obtain e2 where 2: "load_to_db env (Some r) (w\<lparr>log_file := log_file w @
         [(''Starting database loading process'', []),
          (''Error in database loading: {}'', [Exc e1])]\<rparr>) =
    (Inr False, w\<lparr>log_file := log_file w @
         [(''Starting database loading process'', []),
          (''Error in database loading: {}'', [Exc e1])]\<rparr>
      \<lparr>log_file := log_file (w\<lparr>log_file := log_file w @
         [(''Starting database loading process'', []),
          (''Error in database loading: {}'', [Exc e1])]\<rparr>) @
         [(''Starting database loading process'', []),
          (''Error in database loading: {}'', [Exc e2])]\<rparr>)"
    using load_to_db_fault [OF f] by blast
  from False 1 2 show ?thesis by auto
qed

theorem load_to_db_idempotent_witness:
  "fst (load_to_db sample_env (Some 0)
         (world_with bank_a\<lparr>database := (\<lambda>_. None)(''Largest_banks'' := Some bank_a_b)\<rparr>)) = Inr True
   \<and> database (snd (load_to_db sample_env (Some 0)
         (world_with bank_a\<lparr>database := (\<lambda>_. None)(''Largest_banks'' := Some bank_a_b)\<rparr>)))
        ''Largest_banks'' = Some bank_a
   \<and> database (snd (load_to_db sample_env (Some 0) (snd (load_to_db sample_env (Some 0)
         (world_with bank_a\<lparr>database := (\<lambda>_. None)(''Largest_banks'' := Some bank_a_b)\<rparr>)))))
        ''Largest_banks'' = Some bank_a"
proof -
  have f: "connect_fault sample_env = None \<and> to_sql_fault sample_env = None"
    by (simp add: sample_env_def)
  have h: "heap (world_with bank_a\<lparr>database := (\<lambda>_. None)(''Largest_banks'' := Some bank_a_b)\<rparr>) 0 = bank_a"
    by (simp add: world_with_def fresh_world_def)
  from load_to_db_idempotent [of sample_env 0
      "world_with bank_a\<lparr>database := (\<lambda>_. None)(''Largest_banks'' := Some bank_a_b)\<rparr>"]
  show ?thesis using f h by auto
qed

section \<open>Properties of the report\<close>


lemma floor_rat_minus_numeral_div:
  "\<lfloor>- (numeral a / numeral b) :: rat\<rfloor> = - numeral a div numeral b"
  by (metis divide_minus_left floor_divide_of_int_eq of_int_neg_numeral of_int_numeral)







section \<open>Properties of the entry point\<close>

lemma run_queries_effect:
  "\<exists>a w'. run_queries env w = (Inr a, w') \<and> heap w' = heap w \<and> csv_file w' = csv_file w
     \<and> database w' = database w"
  by (auto simp: run_queries_def prog_defs read_sql_query_def split: option.splits sum.splits)

lemma verify_logs_effect:
  "\<exists>a w'. verify_logs env w = (Inr a, w') \<and> heap w' = heap w \<and> csv_file w' = csv_file w
     \<and> database w' = database w"
  by (auto simp: verify_logs_def prog_defs split: option.splits sum.splits)

lemma extract_effect:
  "\<exists>a w'. extract_stage env w = (Inr a, w') \<and> csv_file w' = csv_file w
     \<and> database w' = database w"
  by (auto simp: extract_stage_def extract_body_def prog_defs new_frame_def
      split: option.splits sum.splits)

lemma transform_effect:
  "\<exists>a w'. transform env df w = (Inr a, w') \<and> csv_file w' = csv_file w
     \<and> database w' = database w"
  by (auto simp: transform_def transform_inner_def prog_defs assign_converted_def Let_def
      split: option.splits sum.splits)

lemma load_to_db_effect:
  "\<exists>a w'. load_to_db env df w = (Inr a, w') \<and> csv_file w' = csv_file w"
  by (auto simp: load_to_db_def df_to_sql_def prog_defs split: option.splits sum.splits)

lemma main_leaves_csv_file: "\<exists>w'. main env w = (Inr (), w') \<and> csv_file w' = csv_file w"
proof -
  obtain df w1 where e: "extract_stage env (w\<lparr>log_file := log_file w @ [(''ETL Process Started'', [])]\<rparr>) = (Inr df, w1)"
    and e': "csv_file w1 = csv_file w"
    using extract_effect [of env "w\<lparr>log_file := log_file w @ [(''ETL Process Started'', [])]\<rparr>"]
    by auto
  show ?thesis
  proof (cases df)
    case None
    with e e' show ?thesis by (simp add: main_def andthen_def log_progress_def)
  next
    case (Some r)
    obtain dt w2 where t: "transform env (Some r) w1 = (Inr dt, w2)"
      and t': "csv_file w2 = csv_file w1"
      using transform_effect by blast
    show ?thesis
    proof (cases dt)
      case None
      with e e' Some t t' show ?thesis by (simp add: main_def andthen_def log_progress_def)
    next
      case r2: (Some r2)
      obtain b w3 where l: "load_to_db env (Some r2) w2 = (Inr b, w3)"
        and l': "csv_file w3 = csv_file w2"
        using load_to_db_effect by blast
      obtain q w4 where q: "run_queries env w3 = (Inr q, w4)" and q': "csv_file w4 = csv_file w3"
        using run_queries_effect by blast
      obtain v w5 where v: "verify_logs env (if b then w4 else w3) = (Inr v, w5)"
        and v': "csv_file w5 = csv_file (if b then w4 else w3)"
        using verify_logs_effect by blast
      from e e' Some t t' r2 l l' q q' v v' show ?thesis
        by (cases b) (simp_all add: main_def andthen_def log_progress_def returns_def)
    qed
  qed
qed

text \<open>
  C1 asks that a run in which \<open>extract\<close> and \<open>transform\<close> succeed writes the
  transformed Dataset through both sinks. The entry point calls the relational sink
  only. On the sample run both stages succeed and the table \<open>Largest_banks\<close> holds
  the transformed Dataset at the end, but the CSV file has not been written, though
  \<open>load_to_csv\<close> would have written that Dataset had it been called.
\<close>

theorem main_never_writes_csv:
  "\<exists>w1 w2 w'.
       extract_stage sample_env (snd (log_progress (''ETL Process Started'', []) fresh_world))
         = (Inr (Some 0), w1)
     \<and> transform sample_env (Some 0) w1 = (Inr (Some 0), w2)
     \<and> heap w2 0 = sample_transformed
     \<and> main sample_env fresh_world = (Inr (), w')
     \<and> database w' ''Largest_banks'' = Some sample_transformed
     \<and> csv_file w' = None
     \<and> csv_file (snd (load_to_csv sample_env (Some 0) w2)) = Some sample_transformed"
proof -
  have env: "http_get sample_env = Inr sample_page" "to_numeric sample_env = decimal_numeral"
    "read_csv sample_env = Inr sample_rates" "connect_fault sample_env = None"
    "to_sql_fault sample_env = None" "to_csv_fault sample_env = None"
    by (simp_all add: sample_env_def)
  define w0 where "w0 = fresh_world\<lparr>log_file := log_file fresh_world @ [(''ETL Process Started'', [])]\<rparr>"
  have z: "next_ref w0 = 0" by (simp add: w0_def fresh_world_def)
  have cl: "clean_frame (to_numeric sample_env)
     \<lparr>columns = Index [''Rank'', ''Bank name '', ''Market cap (US$ billion)''],
      cells = [[''1'', ''2'', ''3''], [''Bank A'', ''Bank B'', ''Bank C''],
               [''100.0'', ''n/a'', ''1,250.0'']]\<rparr> = Inr sample_extracted"
    using sample_clean env(2) by simp
  obtain w1 where e: "extract_stage sample_env w0 = (Inr (Some 0), w1)"
    and h1: "heap w1 0 = sample_extracted" and c1: "csv_file w1 = None"
    and d1: "database w1 = (\<lambda>_. None)"
    using extract_found [OF env(1) sample_target sample_read_html cl, of w0] z
    by (simp add: w0_def fresh_world_def)
  have usd: "MC_USD_Billion (heap w1 0) = Some [Some 100, None, Some 1250]"
    by (simp add: h1 sample_extracted_def no_columns_def)
  obtain w2 where t: "transform sample_env (Some 0) w1 = (Inr (Some 0), w2)"
    and h2: "heap w2 0 = sample_transformed" and c2: "csv_file w2 = None"
    and d2: "database w2 = (\<lambda>_. None)"
    using transform_ok [OF env(3) sample_rates_lookup usd] h1 c1 d1
    by (simp add: sample_transformed_def np_round_def num_mul_def rint_def Let_def)
  obtain w3 where l: "load_to_db sample_env (Some 0) w2 = (Inr True, w3)"
    and d3: "database w3 ''Largest_banks'' = Some sample_transformed" and c3: "csv_file w3 = None"
    using load_to_db_ok [OF env(4,5), of 0 w2] h2 c2 by simp
  obtain q w4 where q: "run_queries sample_env w3 = (Inr q, w4)"
    and d4: "database w4 = database w3" and c4: "csv_file w4 = csv_file w3"
    using run_queries_effect by blast
  obtain v w5 where v: "verify_logs sample_env w4 = (Inr v, w5)"
    and d5: "database w5 = database w4" and c5: "csv_file w5 = csv_file w4"
    using verify_logs_effect by blast
  have m: "main sample_env fresh_world =
      (Inr (), w5\<lparr>log_file := log_file w5 @ [(''ETL Process Completed Successfully'', [])]\<rparr>)"
    using e t l q v by (simp add: main_def andthen_def log_progress_def returns_def w0_def)
  have csv: "csv_file (snd (load_to_csv sample_env (Some 0) w2)) = Some sample_transformed"
    using env(6) h2 by (simp add: load_to_csv_def to_csv_def prog_defs)
  have e0: "extract_stage sample_env (snd (log_progress (''ETL Process Started'', []) fresh_world))
         = (Inr (Some 0), w1)"
    using e by (simp add: log_progress_def w0_def)
  from e0 t h2 m csv d3 d4 d5 c3 c4 c5 show ?thesis by simp
qed

end
